theory Spec2Isabelle
  imports Main
begin

section \<open>String primitives of the host language\<close>

text \<open>
  The middleware works on JavaScript strings through \<^verbatim>\<open>startsWith\<close>,
  \<^verbatim>\<open>includes\<close> (here \<open>includes_str\<close>) and \<^verbatim>\<open>replace\<close> (first occurrence only, since the
  pattern is a string and not a global regular expression). The receiver is the first
  argument.
\<close>

fun startsWith :: "string \<Rightarrow> string \<Rightarrow> bool" where
  "startsWith s [] = True"
| "startsWith [] (p # ps) = False"
| "startsWith (c # cs) (p # ps) = (c = p \<and> startsWith cs ps)"

fun includes_str :: "string \<Rightarrow> string \<Rightarrow> bool" where
  "includes_str [] p = (p = [])"
| "includes_str (c # cs) p = (startsWith (c # cs) p \<or> includes_str cs p)"

fun replace :: "string \<Rightarrow> string \<Rightarrow> string \<Rightarrow> string" where
  "replace [] pat rep = (if pat = [] then rep else [])"
| "replace (c # cs) pat rep =
     (if startsWith (c # cs) pat then rep @ drop (length pat) (c # cs)
      else c # replace cs pat rep)"

section \<open>Roles, permissions and the access rule table (types/auth.ts, middleware/rbac.ts)\<close>

datatype Role = PLATFORM_ADMIN | PARTNER_ADMIN | TENANT_ADMIN | TENANT_USER

datatype TenantType = UI | API | HYBRID

datatype Permission =
    partners_read | partners_write | partners_delete
  | tenants_read | tenants_write | tenants_delete
  | plans_read | plans_write
  | domains_read | domains_write | domains_verify
  | usage_read
  | system_read | system_write

datatype ErrorCode =
    UNAUTHORIZED | FORBIDDEN | TOKEN_EXPIRED | TOKEN_INVALID
  | VALIDATION_ERROR | INTERNAL_SERVER_ERROR

record AccessCondition =
  cond_field :: string
  cond_operator :: string
  cond_value :: string

record AccessRule =
  rule_role :: Role
  rule_permissions :: "Permission list"
  rule_conditions :: "AccessCondition list option"

definition accessRules :: "AccessRule list" where
  "accessRules =
    [ \<lparr> rule_role = PLATFORM_ADMIN,
        rule_permissions =
          [partners_read, partners_write, partners_delete,
           tenants_read, tenants_write, tenants_delete,
           plans_read, plans_write,
           domains_read, domains_write, domains_verify,
           usage_read,
           system_read, system_write],
        rule_conditions = None \<rparr>,
      \<lparr> rule_role = PARTNER_ADMIN,
        rule_permissions =
          [partners_read,
           tenants_read, tenants_write,
           domains_read, domains_write, domains_verify,
           usage_read],
        rule_conditions = Some
          [\<lparr> cond_field = ''partner_id'', cond_operator = ''equals'',
             cond_value = ''user.partner_id'' \<rparr>] \<rparr>,
      \<lparr> rule_role = TENANT_ADMIN,
        rule_permissions =
          [tenants_read,
           domains_read, domains_write,
           usage_read],
        rule_conditions = Some
          [\<lparr> cond_field = ''tenant_id'', cond_operator = ''equals'',
             cond_value = ''user.tenant_id'' \<rparr>] \<rparr>,
      \<lparr> rule_role = TENANT_USER,
        rule_permissions =
          [tenants_read,
           usage_read],
        rule_conditions = Some
          [\<lparr> cond_field = ''tenant_id'', cond_operator = ''equals'',
             cond_value = ''user.tenant_id'' \<rparr>] \<rparr> ]"

section \<open>The request classifier (middleware/rbac.ts, getRequiredPermission)\<close>

definition getRequiredPermission :: "string \<Rightarrow> string \<Rightarrow> Permission option" where
  "getRequiredPermission method path =
    (let isWrite = (method \<in> set [''POST'', ''PUT'', ''PATCH'']);
         isDelete = (method = ''DELETE'')
     in
       if startsWith path ''/partners'' then
         (if isDelete then Some partners_delete
          else if isWrite then Some partners_write else Some partners_read)
       else if startsWith path ''/tenants'' then
         (if isDelete then Some tenants_delete
          else if isWrite then Some tenants_write else Some tenants_read)
       else if startsWith path ''/plans'' then
         (if isWrite then Some plans_write else Some plans_read)
       else if startsWith path ''/domains'' then
         (if includes_str path ''/verify'' then Some domains_verify
          else if isWrite then Some domains_write else Some domains_read)
       else if startsWith path ''/usage'' \<or> startsWith path ''/admin/dashboard'' then
         Some usage_read
       else if startsWith path ''/system'' \<or> startsWith path ''/admin'' then
         (if isWrite then Some system_write else Some system_read)
       else None)"

section \<open>The persistent store as the authorization core reads it\<close>

text \<open>
  The Prisma client is modelled by the rows of the four tables the core reads, in the
  order the store returns them, and by a flag telling that every query throws (lost
  connection, or a client without the queried model such as the deployment fallback
  client of lib/prisma-mock.ts). A query is a value of \<open>db_error + 'a\<close>.
\<close>

record User =
  u_id :: string
  u_email :: string
  u_name :: string
  u_password :: "string option"

record Partner =
  p_id :: string

record Tenant =
  t_id :: string
  t_partner_id :: string
  t_name :: string
  t_tenant_type :: TenantType

record Membership =
  m_user_id :: string
  m_tenant_id :: string
  m_role :: Role

record db =
  db_fails :: bool
  db_users :: "User list"
  db_partners :: "Partner list"
  db_tenants :: "Tenant list"
  db_memberships :: "Membership list"

datatype db_error = QueryFailed | InconsistentResult

definition membership_findFirst ::
  "db \<Rightarrow> (Membership \<Rightarrow> bool) \<Rightarrow> db_error + Membership option" where
  "membership_findFirst d wh =
     (if db_fails d then Inl QueryFailed else Inr (find wh (db_memberships d)))"

text \<open>The required relations \<open>membership.tenant\<close> and \<open>tenant.partner\<close> of an
  \<open>include\<close>: a row whose foreign key has no target makes the query throw.\<close>

definition include_tenant :: "db \<Rightarrow> Membership \<Rightarrow> db_error + Tenant" where
  "include_tenant d m =
     (case find (\<lambda>t. t_id t = m_tenant_id m) (db_tenants d) of
        None \<Rightarrow> Inl InconsistentResult
      | Some t \<Rightarrow> Inr t)"

definition include_partner :: "db \<Rightarrow> Tenant \<Rightarrow> db_error + Partner" where
  "include_partner d t =
     (case find (\<lambda>p. p_id p = t_partner_id t) (db_partners d) of
        None \<Rightarrow> Inl InconsistentResult
      | Some p \<Rightarrow> Inr p)"

text \<open>The relation \<open>partner.tenants\<close> restricted by \<open>where: { id: tenantId }\<close>.\<close>

definition include_tenants_where ::
  "db \<Rightarrow> Partner \<Rightarrow> string \<Rightarrow> Tenant list" where
  "include_tenants_where d p tenantId =
     filter (\<lambda>t. t_partner_id t = p_id p \<and> t_id t = tenantId) (db_tenants d)"

section \<open>Effects: log lines and calls of the tenant access resolver\<close>

datatype event =
    LogDebug string
  | LogInfo string
  | LogWarn string
  | LogError string
  | Called_checkTenantAccess string string Role

fun is_tenant_check :: "event \<Rightarrow> bool" where
  "is_tenant_check (Called_checkTenantAccess u t r) = True"
| "is_tenant_check e = False"

section \<open>The tenant access resolver (middleware/rbac.ts, checkTenantAccess)\<close>

text \<open>The body of the \<open>try\<close> block: \<open>Inl\<close> is a thrown error.\<close>

definition checkTenantAccess_try ::
  "db \<Rightarrow> string \<Rightarrow> string \<Rightarrow> Role \<Rightarrow> db_error + bool" where
  "checkTenantAccess_try d userId tenantId role =
     (if role = PLATFORM_ADMIN then Inr True
      else if role = PARTNER_ADMIN then
        (case membership_findFirst d
                (\<lambda>m. m_user_id m = userId \<and> m_role m = PARTNER_ADMIN) of
           Inl e \<Rightarrow> Inl e
         | Inr None \<Rightarrow> Inr False
         | Inr (Some membership) \<Rightarrow>
             (case include_tenant d membership of
                Inl e \<Rightarrow> Inl e
              | Inr tenant \<Rightarrow>
                  (case include_partner d tenant of
                     Inl e \<Rightarrow> Inl e
                   | Inr partner \<Rightarrow>
                       Inr (length (include_tenants_where d partner tenantId) > 0))))
      else if role = TENANT_ADMIN \<or> role = TENANT_USER then
        (case membership_findFirst d
                (\<lambda>m. m_user_id m = userId \<and> m_tenant_id m = tenantId
                      \<and> m_role m \<in> set [TENANT_ADMIN, TENANT_USER]) of
           Inl e \<Rightarrow> Inl e
         | Inr membership \<Rightarrow> Inr (membership \<noteq> None))
      else Inr False)"

text \<open>The \<open>catch\<close> block logs the error and answers \<open>false\<close>.\<close>

definition checkTenantAccess ::
  "db \<Rightarrow> string \<Rightarrow> string \<Rightarrow> Role \<Rightarrow> bool \<times> event list" where
  "checkTenantAccess d userId tenantId role =
     (case checkTenantAccess_try d userId tenantId role of
        Inl e \<Rightarrow> (False, [LogError ''Error checking tenant access''])
      | Inr b \<Rightarrow> (b, []))"

section \<open>Token payload, request context and replies (types/auth.ts)\<close>

record TenantContext =
  tc_tenant_id :: string
  tc_tenant_name :: string
  tc_tenant_type :: TenantType
  tc_role :: Role

text \<open>\<open>JWTClaims\<close> is the payload the login route hands to the signer
  (\<open>Omit<JWTPayload, 'iat' | 'exp' | 'iss'>\<close>); \<open>JWTPayload\<close> adds the registered
  claims the signer writes. Issuer and audience are absent when the plugin is
  registered without them.\<close>

record JWTClaims =
  jwt_sub :: string
  jwt_email :: string
  jwt_role :: Role
  jwt_tenant_context :: "TenantContext list option"

record JWTPayload = JWTClaims +
  jwt_iat :: nat
  jwt_exp :: nat
  jwt_iss :: "string option"
  jwt_aud :: "string option"

record RequestContext =
  ctx_user_id :: "string option"
  ctx_tenant_id :: "string option"
  ctx_role :: Role
  ctx_correlation_id :: string

record reply =
  reply_status :: nat
  reply_code :: ErrorCode
  reply_message :: string
  reply_correlation_id :: string

section \<open>The token library (@fastify/jwt), symbolically\<close>

text \<open>
  A compact token is kept as its decoded claims together with what its signature part
  authenticates: the key and the claims that were signed. A token is authentic for a
  secret when the key is that secret and the signed claims are the claims it carries; a
  forged or tampered token differs in one of the two. Times are seconds.
\<close>

record token =
  tok_claims :: JWTPayload
  tok_mac_key :: string
  tok_mac_claims :: JWTPayload

text \<open>The Authorization header: \<open>Bearer t\<close> is the text \<^verbatim>\<open>Bearer \<close> followed by the
  compact form of \<open>t\<close>; \<open>Unparsed s\<close> is any other header text \<open>s\<close>.\<close>

datatype authorization = Bearer token | Unparsed string

record jwt_options =
  opt_secret :: string
  opt_expiresIn :: nat
  opt_sign_issuer :: "string option"
  opt_sign_audience :: "string option"
  opt_verify_issuer :: "string option"
  opt_verify_audience :: "string option"

datatype jwt_error =
    FST_JWT_NO_AUTHORIZATION_IN_HEADER
  | FST_JWT_BAD_REQUEST
  | FST_JWT_AUTHORIZATION_TOKEN_EXPIRED
  | FST_JWT_AUTHORIZATION_TOKEN_INVALID

definition jwtSign :: "jwt_options \<Rightarrow> nat \<Rightarrow> JWTClaims \<Rightarrow> token" where
  "jwtSign opts now payload =
     (let claims =
        \<lparr> jwt_sub = jwt_sub payload, jwt_email = jwt_email payload,
          jwt_role = jwt_role payload, jwt_tenant_context = jwt_tenant_context payload,
          jwt_iat = now, jwt_exp = now + opt_expiresIn opts,
          jwt_iss = opt_sign_issuer opts, jwt_aud = opt_sign_audience opts \<rparr>
      in \<lparr> tok_claims = claims, tok_mac_key = opt_secret opts, tok_mac_claims = claims \<rparr>)"

definition claim_matches :: "string option \<Rightarrow> string option \<Rightarrow> bool" where
  "claim_matches allowed given =
     (case allowed of None \<Rightarrow> True | Some a \<Rightarrow> given = Some a)"

definition jwtVerify ::
  "jwt_options \<Rightarrow> nat \<Rightarrow> authorization option \<Rightarrow> jwt_error + JWTPayload" where
  "jwtVerify opts now header =
     (case header of
        None \<Rightarrow> Inl FST_JWT_NO_AUTHORIZATION_IN_HEADER
      | Some (Unparsed s) \<Rightarrow>
          (if startsWith s ''Bearer '' then Inl FST_JWT_AUTHORIZATION_TOKEN_INVALID
           else Inl FST_JWT_BAD_REQUEST)
      | Some (Bearer t) \<Rightarrow>
          (if \<not> (tok_mac_key t = opt_secret opts \<and> tok_mac_claims t = tok_claims t)
             then Inl FST_JWT_AUTHORIZATION_TOKEN_INVALID
           else if jwt_exp (tok_claims t) \<le> now
             then Inl FST_JWT_AUTHORIZATION_TOKEN_EXPIRED
           else if \<not> (claim_matches (opt_verify_issuer opts) (jwt_iss (tok_claims t))
                    \<and> claim_matches (opt_verify_audience opts) (jwt_aud (tok_claims t)))
             then Inl FST_JWT_AUTHORIZATION_TOKEN_INVALID
           else Inr (tok_claims t)))"

section \<open>The request as the hooks see it\<close>

text \<open>Client address and user agent only travel into log lines and are left out.\<close>

record request =
  req_method :: string
  req_url :: string
  req_authorization :: "authorization option"
  req_correlationId :: string
  req_user :: "JWTPayload option"
  req_context :: "RequestContext option"

section \<open>The authentication hook (middleware/auth.ts, authMiddleware)\<close>

text \<open>\<open>request.headers.authorization?.replace('Bearer ', '')\<close> followed by
  \<open>!token\<close>: a missing header and an empty remainder both count as no token.\<close>

definition token_missing :: "authorization option \<Rightarrow> bool" where
  "token_missing header =
     (case header of
        None \<Rightarrow> True
      | Some (Bearer t) \<Rightarrow> False
      | Some (Unparsed s) \<Rightarrow> replace s ''Bearer '' [] = [])"

text \<open>\<open>request.url.match(/^\/tenants\/([^\/]+)/)\<close>, first group.\<close>

definition tenantMatch :: "string \<Rightarrow> string option" where
  "tenantMatch url =
     (if startsWith url ''/tenants/'' then
        (let seg = takeWhile (\<lambda>c. c \<noteq> CHR ''/'') (drop 9 url)
         in if seg = [] then None else Some seg)
      else None)"

definition authMiddleware ::
  "jwt_options \<Rightarrow> nat \<Rightarrow> request \<Rightarrow> reply option \<times> request \<times> event list" where
  "authMiddleware opts now request =
     (if startsWith (req_url request) ''/health'' \<or> startsWith (req_url request) ''/docs''
        then (None, request, [])
      else if token_missing (req_authorization request) then
        (Some \<lparr> reply_status = 401, reply_code = UNAUTHORIZED,
                reply_message = ''Authorization token required'',
                reply_correlation_id = req_correlationId request \<rparr>, request, [])
      else
        (case jwtVerify opts now (req_authorization request) of
           Inl error \<Rightarrow>
             (Some \<lparr> reply_status = 401, reply_code = TOKEN_INVALID,
                     reply_message = ''Invalid or expired token'',
                     reply_correlation_id = req_correlationId request \<rparr>,
              request, [LogWarn ''JWT verification failed''])
         | Inr payload \<Rightarrow>
             (let context =
                    \<lparr> ctx_user_id = Some (jwt_sub payload), ctx_tenant_id = None,
                      ctx_role = jwt_role payload,
                      ctx_correlation_id = req_correlationId request \<rparr>;
                  context' =
                    (if startsWith (req_url request) ''/tenants/'' then
                       (case tenantMatch (req_url request) of
                          Some tenantId \<Rightarrow> context \<lparr> ctx_tenant_id := Some tenantId \<rparr>
                        | None \<Rightarrow> context)
                     else context)
              in (None,
                  request \<lparr> req_user := Some payload, req_context := Some context' \<rparr>,
                  [LogDebug ''Authentication successful'']))))"

text \<open>Nothing inside the hook's outer \<open>try\<close> throws in this model (the verifier's
  error is caught by the inner \<open>catch\<close>), so the outer \<open>catch\<close> with its 500 reply
  has no branch here.\<close>

section \<open>The authorization hook (middleware/rbac.ts, rbacMiddleware)\<close>

text \<open>
  The hook answers with a reply (the request is denied) or with nothing (the request goes
  on to its handler), and leaves a trace of its log lines and of its calls of the tenant
  access resolver. Reading \<open>context.tenant_id\<close> of a request that has no context
  throws; the error handler turns that into a 500 reply.
\<close>

text \<open>Lines 219 to 247 of the hook: the tenant-specific check and the final log
  line. A tenant id that is the empty string is falsy and skips the check.\<close>

definition tenantScoping ::
  "db \<Rightarrow> request \<Rightarrow> JWTPayload \<Rightarrow> RequestContext \<Rightarrow> reply option \<times> event list" where
  "tenantScoping d request user context =
     (case (if jwt_role user \<noteq> PLATFORM_ADMIN then ctx_tenant_id context else None) of
        None \<Rightarrow> (None, [LogDebug ''RBAC check passed''])
      | Some tenantId \<Rightarrow>
          (if tenantId = [] then (None, [LogDebug ''RBAC check passed''])
           else
             (case checkTenantAccess d (jwt_sub user) tenantId (jwt_role user) of
                (hasAccess, logged) \<Rightarrow>
                  (if \<not> hasAccess then
                     (Some \<lparr> reply_status = 403, reply_code = FORBIDDEN,
                             reply_message = ''Access denied to this tenant'',
                             reply_correlation_id = req_correlationId request \<rparr>,
                      Called_checkTenantAccess (jwt_sub user) tenantId (jwt_role user)
                        # logged @ [LogWarn ''Tenant access denied''])
                   else
                     (None,
                      Called_checkTenantAccess (jwt_sub user) tenantId (jwt_role user)
                        # logged @ [LogDebug ''RBAC check passed''])))))"

definition rbacMiddleware :: "db \<Rightarrow> request \<Rightarrow> reply option \<times> event list" where
  "rbacMiddleware d request =
     (if startsWith (req_url request) ''/health'' \<or> startsWith (req_url request) ''/docs''
         \<or> startsWith (req_url request) ''/auth'' \<or> req_url request = ''/''
        then (None, [])
      else
        (case req_user request of
           None \<Rightarrow>
             (Some \<lparr> reply_status = 401, reply_code = UNAUTHORIZED,
                     reply_message = ''Authentication required'',
                     reply_correlation_id = req_correlationId request \<rparr>, [])
         | Some user \<Rightarrow>
             (case getRequiredPermission (req_method request) (req_url request) of
                None \<Rightarrow> (None, [])
              | Some requiredPermission \<Rightarrow>
                  (case find (\<lambda>rule. rule_role rule = jwt_role user) accessRules of
                     None \<Rightarrow>
                       (Some \<lparr> reply_status = 403, reply_code = FORBIDDEN,
                               reply_message = ''Access denied'',
                               reply_correlation_id = req_correlationId request \<rparr>,
                        [LogWarn ''No access rule found for role''])
                   | Some accessRule \<Rightarrow>
                       (if requiredPermission \<notin> set (rule_permissions accessRule) then
                          (Some \<lparr> reply_status = 403, reply_code = FORBIDDEN,
                                  reply_message = ''Insufficient permissions'',
                                  reply_correlation_id = req_correlationId request \<rparr>,
                           [LogWarn ''Permission denied''])
                        else
                          (case req_context request of
                             None \<Rightarrow>
                               (Some \<lparr> reply_status = 500,
                                       reply_code = INTERNAL_SERVER_ERROR,
                                       reply_message = ''Internal server error'',
                                       reply_correlation_id = req_correlationId request \<rparr>,
                                [LogError ''Request error''])
                           | Some context \<Rightarrow>
                               tenantScoping d request user context))))))"

section \<open>The two hooks in registration order\<close>

text \<open>A hook that has sent a reply ends the request: the next hook does not run.\<close>

definition onRequest ::
  "jwt_options \<Rightarrow> db \<Rightarrow> nat \<Rightarrow> request \<Rightarrow> reply option \<times> request \<times> event list" where
  "onRequest opts d now request =
     (case authMiddleware opts now request of
        (Some r, request', logged) \<Rightarrow> (Some r, request', logged)
      | (None, request', logged) \<Rightarrow>
          (case rbacMiddleware d request' of
             (r, logged') \<Rightarrow> (r, request', logged @ logged')))"

section \<open>Configuration and the registration of the token plugin\<close>

text \<open>The environment variables the token configuration reads. \<open>or_default v d\<close>
  is JavaScript's \<open>v || d\<close> on a string that may be undefined: the empty string is
  falsy as well.\<close>

record env =
  JWT_SECRET :: "string option"
  JWT_EXPIRES_IN :: "string option"
  DATABASE_URL :: "string option"
  PLATFORM_ADMIN_PASSWORD :: "string option"
  NODE_ENV :: "string option"
  WEBHOOK_SECRET :: "string option"

definition or_default :: "string option \<Rightarrow> string \<Rightarrow> string" where
  "or_default v d = (case v of None \<Rightarrow> d | Some s \<Rightarrow> if s = [] then d else s)"

text \<open>The signer's time spans, for the shape \<open><digits><unit>\<close> with the units
  \<open>s\<close>, \<open>m\<close>, \<open>h\<close> and \<open>d\<close>, in seconds; any other text is refused when the plugin
  is registered.\<close>

definition digit_val :: "char \<Rightarrow> nat option" where
  "digit_val c = map_of (zip ''0123456789'' [0, 1, 2, 3, 4, 5, 6, 7, 8, 9]) c"

fun digits_val :: "nat \<Rightarrow> string \<Rightarrow> nat" where
  "digits_val acc [] = acc"
| "digits_val acc (c # cs) =
     digits_val (10 * acc + (case digit_val c of None \<Rightarrow> 0 | Some v \<Rightarrow> v)) cs"

definition timespan_seconds :: "string \<Rightarrow> nat option" where
  "timespan_seconds s =
     (let ds = takeWhile (\<lambda>c. digit_val c \<noteq> None) s;
          unit = dropWhile (\<lambda>c. digit_val c \<noteq> None) s;
          n = digits_val 0 ds
      in if ds = [] then None
         else if unit = ''s'' then Some n
         else if unit = ''m'' then Some (60 * n)
         else if unit = ''h'' then Some (3600 * n)
         else if unit = ''d'' then Some (86400 * n)
         else None)"

text \<open>app.ts, \<open>build\<close>: the plugin is registered with a secret and a signing expiry
  only. \<open>None\<close>: the registration throws.\<close>

definition build :: "env \<Rightarrow> jwt_options option" where
  "build e =
     (case timespan_seconds (or_default (JWT_EXPIRES_IN e) ''1h'') of
        None \<Rightarrow> None
      | Some n \<Rightarrow>
          Some \<lparr> opt_secret = or_default (JWT_SECRET e) ''fallback-secret-for-testing'',
                 opt_expiresIn = n,
                 opt_sign_issuer = None, opt_sign_audience = None,
                 opt_verify_issuer = None, opt_verify_audience = None \<rparr>)"

text \<open>lib/config.ts (\<open>appConfig.jwt\<close>, \<open>validateConfig\<close>) and server.ts,
  \<open>buildServer\<close>.\<close>

record jwt_config =
  cfg_secret :: string
  cfg_expires_in :: string
  cfg_issuer :: string
  cfg_audience :: string

definition appConfig_jwt :: "env \<Rightarrow> jwt_config" where
  "appConfig_jwt e =
     \<lparr> cfg_secret = or_default (JWT_SECRET e) [],
       cfg_expires_in = or_default (JWT_EXPIRES_IN e) ''24h'',
       cfg_issuer = ''core.avantle.ai'',
       cfg_audience = ''avantle-platform'' \<rparr>"

definition validateConfig :: "env \<Rightarrow> string list" where
  "validateConfig e =
     (if or_default (DATABASE_URL e) [] = [] then [''DATABASE_URL is required''] else [])
     @ (if length (cfg_secret (appConfig_jwt e)) < 32
        then [''JWT_SECRET is required and must be at least 32 characters''] else [])
     @ (if or_default (PLATFORM_ADMIN_PASSWORD e) [] = []
        then [''PLATFORM_ADMIN_PASSWORD is required''] else [])
     @ (if or_default (NODE_ENV e) ''development'' = ''production''
           \<and> or_default (WEBHOOK_SECRET e) [] = []
        then [''WEBHOOK_SECRET is required in production''] else [])"

definition buildServer :: "env \<Rightarrow> jwt_options option" where
  "buildServer e =
     (if validateConfig e \<noteq> [] then None
      else
        (case timespan_seconds (cfg_expires_in (appConfig_jwt e)) of
           None \<Rightarrow> None
         | Some n \<Rightarrow>
             Some \<lparr> opt_secret = cfg_secret (appConfig_jwt e),
                    opt_expiresIn = n,
                    opt_sign_issuer = Some (cfg_issuer (appConfig_jwt e)),
                    opt_sign_audience = Some (cfg_audience (appConfig_jwt e)),
                    opt_verify_issuer = Some (cfg_issuer (appConfig_jwt e)),
                    opt_verify_audience = Some (cfg_audience (appConfig_jwt e)) \<rparr>))"

section \<open>The login route (routes/auth.ts, POST /login)\<close>

record login_body =
  body_email :: string
  body_password :: string

record login_user =
  lu_id :: string
  lu_email :: string
  lu_name :: string
  lu_role :: Role

record login_data =
  access_token :: token
  token_type :: string
  expires_in :: nat
  data_user :: login_user

text \<open>\<open>db.user.findUnique\<close> by email, including the user's memberships and, for
  each, its tenant.\<close>

fun include_membership_tenants ::
  "db \<Rightarrow> Membership list \<Rightarrow> db_error + (Membership \<times> Tenant) list" where
  "include_membership_tenants d [] = Inr []"
| "include_membership_tenants d (m # ms) =
     (case include_tenant d m of
        Inl e \<Rightarrow> Inl e
      | Inr t \<Rightarrow>
          (case include_membership_tenants d ms of
             Inl e \<Rightarrow> Inl e
           | Inr rest \<Rightarrow> Inr ((m, t) # rest)))"

definition user_findUnique ::
  "db \<Rightarrow> string \<Rightarrow> db_error + (User \<times> (Membership \<times> Tenant) list) option" where
  "user_findUnique d email =
     (if db_fails d then Inl QueryFailed
      else
        (case find (\<lambda>u. u_email u = email) (db_users d) of
           None \<Rightarrow> Inr None
         | Some u \<Rightarrow>
             (case include_membership_tenants d
                     (filter (\<lambda>m. m_user_id m = u_id u) (db_memberships d)) of
                Inl e \<Rightarrow> Inl e
              | Inr ms \<Rightarrow> Inr (Some (u, ms)))))"

text \<open>Lines 125 to 131: the role asserted in the token.\<close>

definition primaryRole :: "User \<Rightarrow> (Membership \<times> Tenant) list \<Rightarrow> Role" where
  "primaryRole user memberships =
     (if u_email user = ''admin@avantle.ai'' then PLATFORM_ADMIN
      else (case memberships of [] \<Rightarrow> TENANT_USER | (m, t) # rest \<Rightarrow> m_role m))"

text \<open>Lines 133 to 144: the payload handed to the signer.\<close>

definition jwtPayload :: "User \<Rightarrow> (Membership \<times> Tenant) list \<Rightarrow> JWTClaims" where
  "jwtPayload user memberships =
     \<lparr> jwt_sub = u_id user,
       jwt_email = u_email user,
       jwt_role = primaryRole user memberships,
       jwt_tenant_context = Some (map (\<lambda>(m, t).
          \<lparr> tc_tenant_id = t_id t, tc_tenant_name = t_name t,
            tc_tenant_type = t_tenant_type t, tc_role = m_role m \<rparr>) memberships) \<rparr>"

text \<open>
  The handler. \<open>is_email\<close> is the schema library's test of an email address and
  \<open>bcrypt_compare\<close> the password hash comparison; both come from outside the
  repository and are parameters. A body the schema refuses makes \<open>loginSchema.parse\<close>
  throw before the \<open>try\<close>, which the error handler answers with 400.
\<close>

definition login ::
  "jwt_options \<Rightarrow> (string \<Rightarrow> bool) \<Rightarrow> (string \<Rightarrow> string \<Rightarrow> bool) \<Rightarrow> db \<Rightarrow> nat \<Rightarrow> string
     \<Rightarrow> login_body \<Rightarrow> (reply + login_data) \<times> event list" where
  "login opts is_email bcrypt_compare d now correlationId body =
     (if \<not> (is_email (body_email body) \<and> length (body_password body) \<ge> 1) then
        (Inl \<lparr> reply_status = 400, reply_code = VALIDATION_ERROR,
               reply_message = ''Validation failed'',
               reply_correlation_id = correlationId \<rparr>,
         [LogError ''Request error''])
      else
        (case user_findUnique d (body_email body) of
           Inl e \<Rightarrow>
             (Inl \<lparr> reply_status = 500, reply_code = INTERNAL_SERVER_ERROR,
                    reply_message = ''Authentication failed'',
                    reply_correlation_id = correlationId \<rparr>,
              [LogError ''Login error''])
         | Inr None \<Rightarrow>
             (Inl \<lparr> reply_status = 401, reply_code = UNAUTHORIZED,
                    reply_message = ''Invalid credentials'',
                    reply_correlation_id = correlationId \<rparr>,
              [LogWarn ''Login attempt with non-existent email''])
         | Inr (Some (user, memberships)) \<Rightarrow>
             (let isValidPassword =
                    (u_email user = ''admin@avantle.ai''
                     \<or> bcrypt_compare (body_password body) (or_default (u_password user) []))
              in if \<not> isValidPassword then
                   (Inl \<lparr> reply_status = 401, reply_code = UNAUTHORIZED,
                          reply_message = ''Invalid credentials'',
                          reply_correlation_id = correlationId \<rparr>,
                    [LogWarn ''Failed login attempt''])
                 else
                   (Inr \<lparr> access_token = jwtSign opts now (jwtPayload user memberships),
                          token_type = ''Bearer'',
                          expires_in = 86400,
                          data_user =
                            \<lparr> lu_id = u_id user, lu_email = u_email user,
                              lu_name = u_name user,
                              lu_role = primaryRole user memberships \<rparr> \<rparr>,
                    [LogInfo ''User logged in successfully'']))))"

section \<open>Vocabulary of the properties\<close>

text \<open>The schema's keys: tenant ids are unique, every membership points to a tenant
  and every tenant to a partner.\<close>

definition db_consistent :: "db \<Rightarrow> bool" where
  "db_consistent d =
     (distinct (map t_id (db_tenants d))
      \<and> list_all (\<lambda>m. m_tenant_id m \<in> set (map t_id (db_tenants d))) (db_memberships d)
      \<and> list_all (\<lambda>t. t_partner_id t \<in> set (map p_id (db_partners d))) (db_tenants d))"


text \<open>Lines 181 and 200 of the authorization hook read together: the role has a rule
  that lists the permission.\<close>

definition hasPermission :: "Role \<Rightarrow> Permission \<Rightarrow> bool" where
  "hasPermission role permission =
     (case find (\<lambda>rule. rule_role rule = role) accessRules of
        None \<Rightarrow> False
      | Some accessRule \<Rightarrow> permission \<in> set (rule_permissions accessRule))"

section \<open>A concrete installation\<close>

text \<open>
  Partner p1 owns tenants t1 and t2, partner p2 owns t3. Alice (u1) is PARTNER_ADMIN in
  t1 and TENANT_USER in t3; Bob (u2) is TENANT_USER in t1; Carol (u3) is PARTNER_ADMIN in
  t1 and in t3; u0 is the bootstrap administrator.
\<close>

definition example_db :: db where
  "example_db =
     \<lparr> db_fails = False,
       db_users =
         [\<lparr> u_id = ''u0'', u_email = ''admin@avantle.ai'', u_name = ''Admin'',
            u_password = Some ''hashed_adminpass123'' \<rparr>,
          \<lparr> u_id = ''u1'', u_email = ''alice@example.com'', u_name = ''Alice'',
            u_password = Some ''hashed_alicepass'' \<rparr>,
          \<lparr> u_id = ''u2'', u_email = ''bob@example.com'', u_name = ''Bob'',
            u_password = Some ''hashed_bobpass'' \<rparr>,
          \<lparr> u_id = ''u3'', u_email = ''carol@example.com'', u_name = ''Carol'',
            u_password = None \<rparr>],
       db_partners = [\<lparr> p_id = ''p1'' \<rparr>, \<lparr> p_id = ''p2'' \<rparr>],
       db_tenants =
         [\<lparr> t_id = ''t1'', t_partner_id = ''p1'', t_name = ''One'', t_tenant_type = UI \<rparr>,
          \<lparr> t_id = ''t2'', t_partner_id = ''p1'', t_name = ''Two'', t_tenant_type = API \<rparr>,
          \<lparr> t_id = ''t3'', t_partner_id = ''p2'', t_name = ''Three'',
            t_tenant_type = HYBRID \<rparr>],
       db_memberships =
         [\<lparr> m_user_id = ''u1'', m_tenant_id = ''t1'', m_role = PARTNER_ADMIN \<rparr>,
          \<lparr> m_user_id = ''u1'', m_tenant_id = ''t3'', m_role = TENANT_USER \<rparr>,
          \<lparr> m_user_id = ''u2'', m_tenant_id = ''t1'', m_role = TENANT_USER \<rparr>,
          \<lparr> m_user_id = ''u3'', m_tenant_id = ''t1'', m_role = PARTNER_ADMIN \<rparr>,
          \<lparr> m_user_id = ''u3'', m_tenant_id = ''t3'', m_role = PARTNER_ADMIN \<rparr>] \<rparr>"

text \<open>The same store when its queries throw.\<close>

definition failing_db :: db where
  "failing_db = example_db \<lparr> db_fails := True \<rparr>"

text \<open>An environment that sets no variable, and the options \<open>build\<close> registers
  the token plugin with in it.\<close>

definition empty_env :: env where
  "empty_env =
     \<lparr> JWT_SECRET = None, JWT_EXPIRES_IN = None, DATABASE_URL = None,
       PLATFORM_ADMIN_PASSWORD = None, NODE_ENV = None, WEBHOOK_SECRET = None \<rparr>"

definition build_options :: jwt_options where
  "build_options =
     \<lparr> opt_secret = ''fallback-secret-for-testing'', opt_expiresIn = 3600,
       opt_sign_issuer = None, opt_sign_audience = None,
       opt_verify_issuer = None, opt_verify_audience = None \<rparr>"

text \<open>Stand-ins for the two library parameters of the login route: an address holds
  an at sign, and the hash comparison of the test setup (tests/setup.ts).\<close>

definition has_at_sign :: "string \<Rightarrow> bool" where
  "has_at_sign s = (CHR ''@'' \<in> set s)"

definition mock_compare :: "string \<Rightarrow> string \<Rightarrow> bool" where
  "mock_compare password hash = (hash = ''hashed_'' @ password)"

text \<open>Bob's token from a login at second 1000, and requests that carry it.\<close>

definition bob_token :: token where
  "bob_token =
     jwtSign build_options 1000
       \<lparr> jwt_sub = ''u2'', jwt_email = ''bob@example.com'', jwt_role = TENANT_USER,
         jwt_tenant_context = Some
           [\<lparr> tc_tenant_id = ''t1'', tc_tenant_name = ''One'', tc_tenant_type = UI,
              tc_role = TENANT_USER \<rparr>] \<rparr>"

text \<open>Bob's token with the role rewritten after signing.\<close>

definition forged_token :: token where
  "forged_token =
     bob_token \<lparr> tok_claims := (tok_claims bob_token) \<lparr> jwt_role := PLATFORM_ADMIN \<rparr> \<rparr>"

definition bob_request :: "string \<Rightarrow> string \<Rightarrow> request" where
  "bob_request method url =
     \<lparr> req_method = method, req_url = url,
       req_authorization = Some (Bearer bob_token),
       req_correlationId = ''c-1'',
       req_user = None, req_context = None \<rparr>"

section \<open>Facts about the string primitives\<close>

lemma startsWith_Cons:
  "startsWith s (p # ps) = (\<exists>cs. s = p # cs \<and> startsWith cs ps)"
  by (cases s) auto

lemma startsWith_append: "startsWith (p @ s) p"
  by (induction p) auto

section \<open>Properties of the classifier\<close>

text \<open>
  C7. Whatever the HTTP method is (the write verbs POST, PUT, PATCH and DELETE
  included), a path that starts with \<^verbatim>\<open>/usage\<close>, and likewise the admin dashboard
  path \<^verbatim>\<open>/admin/dashboard\<close>, is classified to the permission \<^verbatim>\<open>usage:read\<close>.
\<close>

theorem usage_paths_need_usage_read:
  "(startsWith path ''/usage'' \<or> startsWith path ''/admin/dashboard'')
     \<longrightarrow> getRequiredPermission method path = Some usage_read"
  by (auto simp: getRequiredPermission_def startsWith_Cons)

theorem usage_paths_need_usage_read_witness:
  "startsWith ''/usage/record'' ''/usage''
   \<and> getRequiredPermission ''POST'' ''/usage/record'' = Some usage_read
   \<and> getRequiredPermission ''DELETE'' ''/usage/record'' = Some usage_read"
  using usage_paths_need_usage_read [of "''/usage/record''" "''POST''"]
    usage_paths_need_usage_read [of "''/usage/record''" "''DELETE''"]
  by simp

section \<open>The tenant access resolver, role by role\<close>

lemma find_in_set: "v \<in> set (map k xs) \<Longrightarrow> \<exists>x. find (\<lambda>y. k y = v) xs = Some x \<and> x \<in> set xs \<and> k x = v"
  by (induction xs) auto

lemma include_tenant_consistent:
  assumes "db_consistent d" "m \<in> set (db_memberships d)"
  shows "\<exists>t. include_tenant d m = Inr t \<and> t \<in> set (db_tenants d) \<and> t_id t = m_tenant_id m"
  using assms find_in_set[of "m_tenant_id m" t_id "db_tenants d"]
  by (auto simp: db_consistent_def include_tenant_def list_all_iff)









section \<open>The authorization hook after classification\<close>

lemma classified_not_skipped:
  assumes "getRequiredPermission method url = Some p"
  shows "\<not> startsWith url ''/health'' \<and> \<not> startsWith url ''/docs''
         \<and> \<not> startsWith url ''/auth'' \<and> url \<noteq> ''/''"
  using assms
  by (auto simp: getRequiredPermission_def startsWith_Cons split: if_splits)

lemma rule_found:
  "\<exists>rule. find (\<lambda>rule. rule_role rule = r) accessRules = Some rule"
  by (cases r) (simp_all add: accessRules_def)

lemma rbac_after_classification:
  assumes user: "req_user request = Some user"
    and perm: "getRequiredPermission (req_method request) (req_url request) = Some p"
  shows "rbacMiddleware d request =
     (if \<not> hasPermission (jwt_role user) p then
        (Some \<lparr> reply_status = 403, reply_code = FORBIDDEN,
                reply_message = ''Insufficient permissions'',
                reply_correlation_id = req_correlationId request \<rparr>,
         [LogWarn ''Permission denied''])
      else
        (case req_context request of
           None \<Rightarrow>
             (Some \<lparr> reply_status = 500, reply_code = INTERNAL_SERVER_ERROR,
                     reply_message = ''Internal server error'',
                     reply_correlation_id = req_correlationId request \<rparr>,
              [LogError ''Request error''])
         | Some context \<Rightarrow> tenantScoping d request user context))"
proof -
  obtain rule where rule: "find (\<lambda>rule. rule_role rule = jwt_role user) accessRules = Some rule"
    using rule_found by blast
  from classified_not_skipped [OF perm]
  have skip: "\<not> (startsWith (req_url request) ''/health'' \<or> startsWith (req_url request) ''/docs''
         \<or> startsWith (req_url request) ''/auth'' \<or> req_url request = ''/'')"
    by simp
  show ?thesis
    unfolding rbacMiddleware_def hasPermission_def
    using skip user perm rule by simp
qed

text \<open>
  C6. A request of an authenticated principal whose method and path classify to a
  permission that the principal's role does not hold is denied with status 403 and code
  FORBIDDEN at the permission step, and the trace of the hook holds no call of the tenant
  access resolver, whatever the store and the request context are. The witness is
  scenario C: Bob, TENANT_USER with a membership on t1, sends a PUT to /tenants/t1 and
  is denied for the missing permission although the resolver would let him reach t1.
\<close>

theorem missing_permission_denied_before_scoping:
  assumes user: "req_user request = Some user"
    and perm: "getRequiredPermission (req_method request) (req_url request) = Some p"
    and lacks: "\<not> hasPermission (jwt_role user) p"
  shows "rbacMiddleware d request =
           (Some \<lparr> reply_status = 403, reply_code = FORBIDDEN,
                   reply_message = ''Insufficient permissions'',
                   reply_correlation_id = req_correlationId request \<rparr>,
            [LogWarn ''Permission denied''])
         \<and> \<not> list_ex is_tenant_check (snd (rbacMiddleware d request))"
  using rbac_after_classification [OF user perm, of d] lacks by simp

theorem missing_permission_denied_before_scoping_witness:
  "rbacMiddleware example_db
      (fst (snd (authMiddleware build_options 2000 (bob_request ''PUT'' ''/tenants/t1''))))
     = (Some \<lparr> reply_status = 403, reply_code = FORBIDDEN,
               reply_message = ''Insufficient permissions'',
               reply_correlation_id = ''c-1'' \<rparr>,
        [LogWarn ''Permission denied''])
   \<and> fst (checkTenantAccess example_db ''u2'' ''t1'' TENANT_USER)"
  using missing_permission_denied_before_scoping
    [of "fst (snd (authMiddleware build_options 2000 (bob_request ''PUT'' ''/tenants/t1'')))"
        "tok_claims bob_token" tenants_write example_db]
  by (simp add: authMiddleware_def bob_request_def bob_token_def build_options_def
      jwtSign_def Let_def jwtVerify_def token_missing_def claim_matches_def tenantMatch_def
      getRequiredPermission_def hasPermission_def accessRules_def
      example_db_def checkTenantAccess_def checkTenantAccess_try_def
      membership_findFirst_def)

section \<open>A failing store at the tenant-scoping step\<close>

lemma failing_lookup:
  assumes "db_fails d" "role \<noteq> PLATFORM_ADMIN"
  shows "checkTenantAccess d userId tenantId role =
           (False, [LogError ''Error checking tenant access''])"
  using assms
  by (cases role)
     (simp_all add: checkTenantAccess_def checkTenantAccess_try_def membership_findFirst_def)

text \<open>
  C2 (as amended). When a request reaches the tenant-scoping step and the lookup of the
  resolver throws, the resolver logs the error and answers false, and the caller receives
  status 403 with code FORBIDDEN and the message of a tenant denial; access is not
  granted.
\<close>

theorem lookup_failure_answered_forbidden:
  assumes fails: "db_fails d"
    and user: "req_user request = Some user"
    and perm: "getRequiredPermission (req_method request) (req_url request) = Some p"
    and holds: "hasPermission (jwt_role user) p"
    and ctx: "req_context request = Some context"
    and target: "ctx_tenant_id context = Some tenantId" "tenantId \<noteq> []"
    and role: "jwt_role user \<noteq> PLATFORM_ADMIN"
  shows "rbacMiddleware d request =
           (Some \<lparr> reply_status = 403, reply_code = FORBIDDEN,
                   reply_message = ''Access denied to this tenant'',
                   reply_correlation_id = req_correlationId request \<rparr>,
            [Called_checkTenantAccess (jwt_sub user) tenantId (jwt_role user),
             LogError ''Error checking tenant access'',
             LogWarn ''Tenant access denied''])"
  using rbac_after_classification [OF user perm, of d] holds ctx target role
    failing_lookup [OF fails role, of "jwt_sub user" tenantId]
  by (simp add: tenantScoping_def)

theorem lookup_failure_answered_forbidden_witness:
  "rbacMiddleware failing_db
      (fst (snd (authMiddleware build_options 2000 (bob_request ''GET'' ''/tenants/t1''))))
     = (Some \<lparr> reply_status = 403, reply_code = FORBIDDEN,
               reply_message = ''Access denied to this tenant'',
               reply_correlation_id = ''c-1'' \<rparr>,
        [Called_checkTenantAccess ''u2'' ''t1'' TENANT_USER,
         LogError ''Error checking tenant access'',
         LogWarn ''Tenant access denied''])"
  using lookup_failure_answered_forbidden
    [of failing_db
        "fst (snd (authMiddleware build_options 2000 (bob_request ''GET'' ''/tenants/t1'')))"
        "tok_claims bob_token" tenants_read
        "\<lparr> ctx_user_id = Some ''u2'', ctx_tenant_id = Some ''t1'', ctx_role = TENANT_USER,
           ctx_correlation_id = ''c-1'' \<rparr>" "''t1''"]
  by (simp add: authMiddleware_def bob_request_def bob_token_def build_options_def
      jwtSign_def Let_def jwtVerify_def token_missing_def claim_matches_def tenantMatch_def
      getRequiredPermission_def hasPermission_def accessRules_def
      failing_db_def example_db_def)

text \<open>
  C2 as stated does not hold: with a store whose queries throw, Bob's read of
  /tenants/t1 through both hooks is answered FORBIDDEN and not INTERNAL_SERVER_ERROR.
\<close>

theorem lookup_failure_not_internal_error:
  "map_option reply_code (fst
      (onRequest build_options failing_db 2000 (bob_request ''GET'' ''/tenants/t1'')))
     = Some FORBIDDEN
   \<and> map_option reply_code (fst
      (onRequest build_options failing_db 2000 (bob_request ''GET'' ''/tenants/t1'')))
     \<noteq> Some INTERNAL_SERVER_ERROR"
  by (simp add: onRequest_def rbacMiddleware_def tenantScoping_def
      authMiddleware_def bob_request_def bob_token_def build_options_def
      jwtSign_def Let_def jwtVerify_def token_missing_def claim_matches_def tenantMatch_def
      getRequiredPermission_def accessRules_def checkTenantAccess_def
      checkTenantAccess_try_def membership_findFirst_def
      failing_db_def example_db_def)

section \<open>Paths the classifier does not know\<close>



section \<open>Where the tenant-scoping step runs\<close>

lemma rbac_without_target:
  assumes "\<forall>c. req_context request = Some c \<longrightarrow> ctx_tenant_id c = None"
  shows "\<not> list_ex is_tenant_check (snd (rbacMiddleware d request))"
  using assms
  by (auto simp: rbacMiddleware_def tenantScoping_def split: option.splits)

lemma rbac_skips_health_docs:
  "startsWith (req_url request) ''/health'' \<or> startsWith (req_url request) ''/docs''
     \<Longrightarrow> rbacMiddleware d request = (None, [])"
  by (auto simp: rbacMiddleware_def)

lemma auth_outcome:
  "authMiddleware opts now request = (None, request, [])
     \<and> (startsWith (req_url request) ''/health'' \<or> startsWith (req_url request) ''/docs'')
   \<or> (\<exists>r ev. authMiddleware opts now request = (Some r, request, ev))
   \<or> (\<exists>payload. authMiddleware opts now request =
         (None,
          request \<lparr> req_user := Some payload,
                    req_context := Some
                      \<lparr> ctx_user_id = Some (jwt_sub payload),
                        ctx_tenant_id =
                          (if startsWith (req_url request) ''/tenants/''
                           then tenantMatch (req_url request) else None),
                        ctx_role = jwt_role payload,
                        ctx_correlation_id = req_correlationId request \<rparr> \<rparr>,
          [LogDebug ''Authentication successful'']))"
  by (auto simp: authMiddleware_def Let_def split: sum.splits option.splits)

lemma auth_logs_no_tenant_check:
  "\<not> list_ex is_tenant_check (snd (snd (authMiddleware opts now request)))"
  by (auto simp: authMiddleware_def Let_def split: sum.splits option.splits)

text \<open>
  C10. For a request whose URL does not begin with /tenants/, the authentication hook
  puts no target tenant id into the request context (it leaves the request as it is, or
  attaches a context whose tenant id is absent), and the trace of the two hooks holds no
  call of the tenant access resolver, for every principal and so for every one that is
  not PLATFORM_ADMIN. The witness is Bob reading the usage of tenant t3, which the
  resolver would refuse him.
\<close>

theorem tenant_scoping_only_under_tenants:
  assumes other: "\<not> startsWith (req_url request) ''/tenants/''"
  shows "\<not> list_ex is_tenant_check (snd (snd (onRequest opts d now request)))
         \<and> (fst (snd (authMiddleware opts now request)) = request
            \<or> (\<exists>c. req_context (fst (snd (authMiddleware opts now request))) = Some c
                    \<and> ctx_tenant_id c = None))"
proof -
  note quiet = auth_logs_no_tenant_check [of opts now request]
  consider
    (skip) "authMiddleware opts now request = (None, request, [])"
      "startsWith (req_url request) ''/health'' \<or> startsWith (req_url request) ''/docs''"
  | (deny) r ev where "authMiddleware opts now request = (Some r, request, ev)"
  | (pass) payload where "authMiddleware opts now request =
         (None,
          request \<lparr> req_user := Some payload,
                    req_context := Some
                      \<lparr> ctx_user_id = Some (jwt_sub payload),
                        ctx_tenant_id =
                          (if startsWith (req_url request) ''/tenants/''
                           then tenantMatch (req_url request) else None),
                        ctx_role = jwt_role payload,
                        ctx_correlation_id = req_correlationId request \<rparr> \<rparr>,
          [LogDebug ''Authentication successful''])"
    using auth_outcome [of opts now request] by blast
  then show ?thesis
  proof cases
    case skip
    then show ?thesis
      using rbac_skips_health_docs [of request d] by (simp add: onRequest_def)
  next
    case deny
    then show ?thesis
      using quiet by (simp add: onRequest_def)
  next
    case pass
    let ?request' = "request \<lparr> req_user := Some payload,
                    req_context := Some
                      \<lparr> ctx_user_id = Some (jwt_sub payload),
                        ctx_tenant_id = None,
                        ctx_role = jwt_role payload,
                        ctx_correlation_id = req_correlationId request \<rparr> \<rparr>"
    have "\<not> list_ex is_tenant_check (snd (rbacMiddleware d ?request'))"
      by (rule rbac_without_target) simp
    with pass other show ?thesis
      by (auto simp: onRequest_def split: prod.splits)
  qed
qed

theorem tenant_scoping_only_under_tenants_witness:
  "\<not> startsWith ''/usage/tenant/t3'' ''/tenants/''
   \<and> onRequest build_options example_db 2000 (bob_request ''GET'' ''/usage/tenant/t3'')
      = (None,
         (bob_request ''GET'' ''/usage/tenant/t3'')
           \<lparr> req_user := Some (tok_claims bob_token),
             req_context := Some
               \<lparr> ctx_user_id = Some ''u2'', ctx_tenant_id = None, ctx_role = TENANT_USER,
                 ctx_correlation_id = ''c-1'' \<rparr> \<rparr>,
         [LogDebug ''Authentication successful'', LogDebug ''RBAC check passed''])
   \<and> \<not> fst (checkTenantAccess example_db ''u2'' ''t3'' TENANT_USER)"
  using tenant_scoping_only_under_tenants
    [of "bob_request ''GET'' ''/usage/tenant/t3''" build_options example_db 2000]
  by (simp add: onRequest_def rbacMiddleware_def tenantScoping_def
      authMiddleware_def bob_request_def bob_token_def build_options_def
      jwtSign_def Let_def jwtVerify_def token_missing_def claim_matches_def tenantMatch_def
      getRequiredPermission_def accessRules_def checkTenantAccess_def
      checkTenantAccess_try_def membership_findFirst_def example_db_def)

section \<open>Issuing and verifying tokens\<close>

lemmas eval_defs =
  onRequest_def rbacMiddleware_def tenantScoping_def authMiddleware_def
  bob_request_def bob_token_def build_options_def jwtSign_def Let_def jwtVerify_def
  token_missing_def claim_matches_def tenantMatch_def getRequiredPermission_def
  accessRules_def checkTenantAccess_def checkTenantAccess_try_def
  membership_findFirst_def example_db_def login_def user_findUnique_def
  include_tenant_def jwtPayload_def primaryRole_def has_at_sign_def mock_compare_def
  or_default_def

lemma jwtVerify_jwtSign:
  assumes "claim_matches (opt_verify_issuer opts) (opt_sign_issuer opts)"
    and "claim_matches (opt_verify_audience opts) (opt_sign_audience opts)"
    and "now' < now + opt_expiresIn opts"
  shows "jwtVerify opts now' (Some (Bearer (jwtSign opts now payload)))
           = Inr (tok_claims (jwtSign opts now payload))"
  using assms by (simp add: jwtVerify_def jwtSign_def Let_def)

lemma registered_options_agree:
  assumes "build e = Some opts \<or> buildServer e = Some opts"
  shows "claim_matches (opt_verify_issuer opts) (opt_sign_issuer opts)
         \<and> claim_matches (opt_verify_audience opts) (opt_sign_audience opts)"
  using assms
  by (auto simp: build_def buildServer_def claim_matches_def
      split: option.splits if_splits)

lemma login_success:
  assumes "fst (login opts is_email cmp d now cid body) = Inr data"
    and "user_findUnique d (body_email body) = Inr (Some (user, ms))"
  shows "data = \<lparr> access_token = jwtSign opts now (jwtPayload user ms),
                  token_type = ''Bearer'', expires_in = 86400,
                  data_user = \<lparr> lu_id = u_id user, lu_email = u_email user,
                                lu_name = u_name user,
                                lu_role = primaryRole user ms \<rparr> \<rparr>"
  using assms
  by (auto simp: login_def Let_def split: if_splits)

text \<open>
  C9. Token round trip. Let the token plugin be registered by \<open>build\<close> or by
  \<open>buildServer\<close>, let the store return user \<open>user\<close> with the membership list
  \<open>ms\<close> (non-empty or not), and let the login succeed at time \<open>now\<close>. A request
  that carries the issued token before its expiry passes the authentication hook, and the
  principal the hook attaches has the \<open>sub\<close>, the \<open>role\<close> and the
  \<open>tenant_context\<close> that the login placed in the payload: the user's id, the
  primary role, and one entry per membership in the same order. The hook takes no store
  as an argument: nothing is fetched again.
\<close>

theorem token_round_trip:
  assumes cfg: "build e = Some opts \<or> buildServer e = Some opts"
    and found: "user_findUnique d (body_email body) = Inr (Some (user, ms))"
    and issued: "fst (login opts is_email cmp d now cid body) = Inr data"
    and fresh: "now' < now + opt_expiresIn opts"
    and carried: "req_authorization request = Some (Bearer (access_token data))"
    and protected: "\<not> startsWith (req_url request) ''/health''"
      "\<not> startsWith (req_url request) ''/docs''"
  shows "\<exists>p c request' logged.
           authMiddleware opts now' request = (None, request', logged)
         \<and> req_user request' = Some p \<and> req_context request' = Some c
         \<and> jwt_sub p = u_id user
         \<and> jwt_role p = primaryRole user ms
         \<and> jwt_tenant_context p = jwt_tenant_context (jwtPayload user ms)
         \<and> jwt_tenant_context p = Some (map (\<lambda>(m, t).
               \<lparr> tc_tenant_id = t_id t, tc_tenant_name = t_name t,
                 tc_tenant_type = t_tenant_type t, tc_role = m_role m \<rparr>) ms)
         \<and> ctx_user_id c = Some (u_id user) \<and> ctx_role c = primaryRole user ms"
proof -
  let ?tok = "jwtSign opts now (jwtPayload user ms)"
  have tok: "access_token data = ?tok"
    using login_success [OF issued found] by simp
  have verified: "jwtVerify opts now' (Some (Bearer ?tok)) = Inr (tok_claims ?tok)"
    using registered_options_agree [OF cfg] fresh by (simp add: jwtVerify_jwtSign)
  have fields: "jwt_sub (tok_claims ?tok) = u_id user"
    "jwt_role (tok_claims ?tok) = primaryRole user ms"
    "jwt_tenant_context (tok_claims ?tok) = jwt_tenant_context (jwtPayload user ms)"
    by (simp_all add: jwtSign_def Let_def jwtPayload_def)
  show ?thesis
    using carried protected tok verified fields
    by (simp add: authMiddleware_def token_missing_def Let_def jwtPayload_def
        split: option.splits)
qed

theorem token_round_trip_witness:
  "fst (login build_options has_at_sign mock_compare example_db 1000 ''c-0''
          \<lparr> body_email = ''bob@example.com'', body_password = ''bobpass'' \<rparr>)
     = Inr \<lparr> access_token = bob_token, token_type = ''Bearer'', expires_in = 86400,
             data_user = \<lparr> lu_id = ''u2'', lu_email = ''bob@example.com'',
                           lu_name = ''Bob'', lu_role = TENANT_USER \<rparr> \<rparr>
   \<and> req_user (fst (snd (authMiddleware build_options 2000
          (bob_request ''GET'' ''/tenants/t1''))))
     = Some (tok_claims bob_token)
   \<and> jwt_sub (tok_claims bob_token) = ''u2''
   \<and> jwt_role (tok_claims bob_token) = TENANT_USER"
  using token_round_trip
    [of empty_env build_options example_db
        "\<lparr> body_email = ''bob@example.com'', body_password = ''bobpass'' \<rparr>"
        "\<lparr> u_id = ''u2'', u_email = ''bob@example.com'', u_name = ''Bob'',
           u_password = Some ''hashed_bobpass'' \<rparr>"
        "[(\<lparr> m_user_id = ''u2'', m_tenant_id = ''t1'', m_role = TENANT_USER \<rparr>,
           \<lparr> t_id = ''t1'', t_partner_id = ''p1'', t_name = ''One'', t_tenant_type = UI \<rparr>)]"
        has_at_sign mock_compare 1000 "''c-0''"
        "\<lparr> access_token = bob_token, token_type = ''Bearer'', expires_in = 86400,
             data_user = \<lparr> lu_id = ''u2'', lu_email = ''bob@example.com'',
                           lu_name = ''Bob'', lu_role = TENANT_USER \<rparr> \<rparr>"
        2000 "bob_request ''GET'' ''/tenants/t1''"]
  by (simp add: eval_defs)

section \<open>Denial codes of the authentication hook\<close>

lemma verification_failure_code:
  assumes "fst (authMiddleware opts now request) = Some r"
  shows "reply_code r = UNAUTHORIZED \<or> reply_code r = TOKEN_INVALID"
  using assms
  by (auto simp: authMiddleware_def Let_def split: if_splits sum.splits option.splits)

text \<open>
  C3, the code at the failing input. Bob's token, issued at second 1000 for one hour, is
  presented to /partners at second 5000. The verifier reports it as expired, yet the
  reply of the hooks carries the code TOKEN_INVALID; the forged token, presented within
  the hour, receives the very same reply. By \<open>verification_failure_code\<close> the
  authentication hook never answers TOKEN_EXPIRED.
\<close>

theorem expired_token_answered_token_invalid:
  "jwtVerify build_options 5000 (req_authorization (bob_request ''GET'' ''/partners''))
     = Inl FST_JWT_AUTHORIZATION_TOKEN_EXPIRED
   \<and> fst (onRequest build_options example_db 5000 (bob_request ''GET'' ''/partners''))
     = Some \<lparr> reply_status = 401, reply_code = TOKEN_INVALID,
              reply_message = ''Invalid or expired token'',
              reply_correlation_id = ''c-1'' \<rparr>
   \<and> jwtVerify build_options 2000 (Some (Bearer forged_token))
     = Inl FST_JWT_AUTHORIZATION_TOKEN_INVALID
   \<and> fst (onRequest build_options example_db 2000
          ((bob_request ''GET'' ''/partners'')
             \<lparr> req_authorization := Some (Bearer forged_token) \<rparr>))
     = fst (onRequest build_options example_db 5000 (bob_request ''GET'' ''/partners''))"
  by (simp add: eval_defs forged_token_def)

section \<open>The default expiry\<close>

lemma default_expiry:
  assumes "JWT_EXPIRES_IN e = None"
  shows "build e = Some opts \<Longrightarrow> opt_expiresIn opts = 3600"
    and "buildServer e = Some opts \<Longrightarrow> opt_expiresIn opts = 86400"
  using assms
  by (auto simp: build_def buildServer_def appConfig_jwt_def or_default_def
      timespan_seconds_def digit_val_def split: if_splits)

text \<open>
  C5, the code at the failing input. With no variable set, \<open>build\<close> registers the
  signer with an expiry of one hour; Bob's login then yields a token that expires 3600
  seconds after it was issued, while the response reports \<open>expires_in = 86400\<close>.
  By \<open>default_expiry\<close> only \<open>buildServer\<close> defaults to 24 hours.
\<close>

theorem default_expiry_under_build:
  "build empty_env = Some build_options
   \<and> map_sum id (\<lambda>data. (jwt_exp (tok_claims (access_token data))
                              - jwt_iat (tok_claims (access_token data)),
                          expires_in data))
       (fst (login build_options has_at_sign mock_compare example_db 1000 ''c-0''
               \<lparr> body_email = ''bob@example.com'', body_password = ''bobpass'' \<rparr>))
     = Inr (3600, 86400)"
  by (simp add: eval_defs build_def empty_env_def timespan_seconds_def digit_val_def)

section \<open>Login with the bootstrap address\<close>

lemma include_membership_tenants_consistent:
  assumes ok: "db_consistent d"
  shows "set ms \<subseteq> set (db_memberships d)
           \<Longrightarrow> \<exists>joined. include_membership_tenants d ms = Inr joined"
proof (induction ms)
  case Nil
  then show ?case by simp
next
  case (Cons m ms)
  then obtain joined where "include_membership_tenants d ms = Inr joined" by auto
  moreover obtain t where "include_tenant d m = Inr t"
    using include_tenant_consistent [OF ok, of m] Cons.prems by auto
  ultimately show ?case by simp
qed

text \<open>
  C4 (as amended). If the store answers, keeps its keys and holds a user whose email is
  the bootstrap address admin@avantle.ai, then for every non-empty password and whatever
  the hash comparison would say, the login for that address succeeds and issues a token
  whose role is PLATFORM_ADMIN.
\<close>

theorem admin_login_ignores_password:
  assumes up: "\<not> db_fails d" and ok: "db_consistent d"
    and exists: "list_ex (\<lambda>u. u_email u = ''admin@avantle.ai'') (db_users d)"
    and address: "is_email ''admin@avantle.ai''"
    and given: "password \<noteq> []"
  shows "\<exists>data. fst (login opts is_email bcrypt_compare d now correlationId
                       \<lparr> body_email = ''admin@avantle.ai'', body_password = password \<rparr>)
                  = Inr data
               \<and> jwt_role (tok_claims (access_token data)) = PLATFORM_ADMIN
               \<and> lu_role (data_user data) = PLATFORM_ADMIN"
proof -
  from exists have "''admin@avantle.ai'' \<in> set (map u_email (db_users d))"
    by (force simp: list_ex_iff)
  from find_in_set [OF this] obtain user where user:
      "find (\<lambda>u. u_email u = ''admin@avantle.ai'') (db_users d) = Some user"
      "u_email user = ''admin@avantle.ai''"
    by blast
  obtain ms where ms: "include_membership_tenants d
        (filter (\<lambda>m. m_user_id m = u_id user) (db_memberships d)) = Inr ms"
    using include_membership_tenants_consistent [OF ok,
        of "filter (\<lambda>m. m_user_id m = u_id user) (db_memberships d)"]
    by auto
  have found: "user_findUnique d ''admin@avantle.ai'' = Inr (Some (user, ms))"
    using up user(1) ms by (simp add: user_findUnique_def)
  show ?thesis
    using found user(2) address given
    by (simp add: login_def Let_def jwtSign_def jwtPayload_def primaryRole_def
        Suc_le_eq)
qed

theorem admin_login_ignores_password_witness:
  "\<not> mock_compare ''not-the-password'' ''hashed_adminpass123''
   \<and> map_sum id (\<lambda>data. (jwt_role (tok_claims (access_token data)), lu_role (data_user data)))
       (fst (login build_options has_at_sign mock_compare example_db 1000 ''c-0''
               \<lparr> body_email = ''admin@avantle.ai'', body_password = ''not-the-password'' \<rparr>))
     = Inr (PLATFORM_ADMIN, PLATFORM_ADMIN)"
  using admin_login_ignores_password
    [of example_db has_at_sign "''not-the-password''" build_options mock_compare 1000 "''c-0''"]
  by (simp add: eval_defs db_consistent_def)

text \<open>
  C4 as stated does not hold for every password string: the empty password is refused
  by the login schema with status 400 before the user is looked up.
\<close>

theorem admin_login_refuses_empty_password:
  "fst (login build_options has_at_sign mock_compare example_db 1000 ''c-0''
          \<lparr> body_email = ''admin@avantle.ai'', body_password = [] \<rparr>)
     = Inl \<lparr> reply_status = 400, reply_code = VALIDATION_ERROR,
             reply_message = ''Validation failed'', reply_correlation_id = ''c-0'' \<rparr>"
  by (simp add: login_def)

end
